theory Spec2Isabelle
  imports Main "HOL-Library.AList" "HOL-Library.Sublist"
begin

section \<open>Python values, dictionaries and exceptions\<close>

text \<open>
  The values that travel between the request handlers and the bot worker of
  \<^verbatim>\<open>otree/bots/browser.py\<close>: JSON values, plus opaque Python objects
  (\<open>PObj\<close>, for instance the page class a submission carries under
  \<^verbatim>\<open>'page_class'\<close>), which \<^verbatim>\<open>json.dumps\<close> rejects.
  A submission descriptor and a JSON object are dictionaries with string keys,
  kept as association lists with at most one pair per key.
\<close>

datatype pyval =
    PNone
  | PBool bool
  | PInt int
  | PStr string
  | PList "pyval list"
  | PDict "(string \<times> pyval) list"
  | PObj string

type_synonym pydict = "(string \<times> pyval) list"

datatype exn =
    is_KeyError: KeyError pyval
  | TypeError string
  | ValueError string
  | is_StopIteration: StopIteration string
  | IndexError string
  | AttributeError string
  | AssertionError pyval
  | Exception pyval
  | DoesNotExist string

text \<open>\<^verbatim>\<open>d.pop(k)\<close> and \<^verbatim>\<open>d.pop(k, None)\<close> on a dictionary with string keys.\<close>

definition pop_key :: "string \<Rightarrow> pydict \<Rightarrow> exn + (pyval \<times> pydict)" where
  "pop_key k d =
     (case map_of d k of
        None \<Rightarrow> Inl (KeyError (PStr k))
      | Some v \<Rightarrow> Inr (v, AList.delete k d))"

definition pop_key_default :: "string \<Rightarrow> pydict \<Rightarrow> pydict" where
  "pop_key_default k d = AList.delete k d"

definition has_key :: "string \<Rightarrow> pydict \<Rightarrow> bool" where
  "has_key k d = (map_of d k \<noteq> None)"

text \<open>
  The worker's own dictionaries are keyed by whatever value arrives as
  \<^verbatim>\<open>participant_code\<close>. Lists and dictionaries are unhashable: using one
  as a key raises \<^verbatim>\<open>TypeError\<close>. Python takes \<^verbatim>\<open>True\<close> and \<^verbatim>\<open>1\<close>
  (and \<^verbatim>\<open>False\<close> and \<^verbatim>\<open>0\<close>) for the same key, the maps here do not; the
  keys that the worker stores are strings, among which the two agree.
\<close>

fun hashable :: "pyval \<Rightarrow> bool" where
  "hashable (PList xs) = False"
| "hashable (PDict d) = False"
| "hashable v = True"

definition dict_getitem :: "(pyval \<rightharpoonup> 'v) \<Rightarrow> pyval \<Rightarrow> exn + 'v" where
  "dict_getitem d k =
     (if \<not> hashable k then Inl (TypeError ''unhashable type'')
      else case d k of None \<Rightarrow> Inl (KeyError k) | Some v \<Rightarrow> Inr v)"

definition dict_pop :: "(pyval \<rightharpoonup> 'v) \<Rightarrow> pyval \<Rightarrow> exn + ('v \<times> (pyval \<rightharpoonup> 'v))" where
  "dict_pop d k =
     (if \<not> hashable k then Inl (TypeError ''unhashable type'')
      else case d k of None \<Rightarrow> Inl (KeyError k) | Some v \<Rightarrow> Inr (v, d(k := None)))"

text \<open>\<^verbatim>\<open>'{}'.format(v)\<close> for the values that can be formatted here.\<close>

fun str_nat :: "nat \<Rightarrow> string" where
  "str_nat n =
     (if n < 10 then [''0123456789'' ! n]
      else str_nat (n div 10) @ [''0123456789'' ! (n mod 10)])"

declare str_nat.simps [simp del]

fun py_str :: "pyval \<Rightarrow> string" where
  "py_str PNone = ''None''"
| "py_str (PBool b) = (if b then ''True'' else ''False'')"
| "py_str (PInt i) = (if i < 0 then ''-'' @ str_nat (nat (- i)) else str_nat (nat i))"
| "py_str (PStr s) = s"
| "py_str (PObj n) = n"
| "py_str (PList xs) = ''[...]''"
| "py_str (PDict d) = ''{...}''"

section \<open>The bot worker\<close>

definition REDIS_KEY_PREFIX :: string where
  "REDIS_KEY_PREFIX = ''otree-bots''"

definition SESSIONS_PRUNE_LIMIT :: int where
  "SESSIONS_PRUNE_LIMIT = 50"

text \<open>
  \<^verbatim>\<open>bot.submits_generator\<close> is a Python generator owned by the bot: what it
  will do on the coming calls of \<^verbatim>\<open>next\<close> is the list of its remaining steps,
  each a yielded submission or a raised exception. At the end of the list it is
  exhausted and \<^verbatim>\<open>next\<close> raises \<^verbatim>\<open>StopIteration\<close>, again and again. A
  generator that raised is finished.
\<close>

datatype gen_step = Yield pydict | Raise exn

fun next_gen :: "gen_step list \<Rightarrow> (exn + pydict) \<times> gen_step list" where
  "next_gen [] = (Inl (StopIteration []), [])"
| "next_gen (Yield submission # g) = (Inr submission, g)"
| "next_gen (Raise e # g) = (Inl e, [])"

record bot =
  path :: pyval
  html :: pyval
  submits_generator :: "gen_step list"

record worker =
  browser_bots :: "pyval \<rightharpoonup> bot"
  prepared_submits :: "pyval \<rightharpoonup> pydict"
  redis_listen_keys :: "string list"

text \<open>
  \<^verbatim>\<open>Worker.__init__\<close>; \<^verbatim>\<open>SESSION_CODE_CHARSET\<close> is a constant of
  \<^verbatim>\<open>otree.common_internal\<close>, taken as a parameter. An absent or empty
  \<open>char_range\<close> is the empty string.
\<close>

definition Worker :: "string \<Rightarrow> string \<Rightarrow> worker" where
  "Worker SESSION_CODE_CHARSET char_range =
     (let char_range = (if char_range = [] then SESSION_CODE_CHARSET else char_range)
      in \<lparr>browser_bots = Map.empty, prepared_submits = Map.empty,
          redis_listen_keys = map (\<lambda>char. REDIS_KEY_PREFIX @ ''-'' @ [char]) char_range\<rparr>)"

definition prune :: "worker \<Rightarrow> worker" where
  "prune w = w"

text \<open>
  \<^verbatim>\<open>Participant.objects.get(code=...)\<close> and the \<^verbatim>\<open>ParticipantBot\<close>
  constructor live outside this file: \<open>participant_get\<close> gives the code of the
  participant found (or nothing, and the lookup raises), \<open>participant_bot\<close> the
  bot built for it.
\<close>

definition initialize_participant ::
  "(pyval \<Rightarrow> pyval option) \<Rightarrow> (pyval \<Rightarrow> bot) \<Rightarrow> pyval \<Rightarrow> worker \<Rightarrow> (exn + pydict) \<times> worker" where
  "initialize_participant participant_get participant_bot participant_code w =
     (case participant_get participant_code of
        None \<Rightarrow> (Inl (DoesNotExist ''Participant matching query does not exist.''), w)
      | Some code \<Rightarrow>
          (let w1 = prune w in
           (Inr [(''ok'', PBool True)],
            w1\<lparr>browser_bots := (browser_bots w1)(code \<mapsto> participant_bot code)\<rparr>)))"

definition clear_all :: "worker \<Rightarrow> worker" where
  "clear_all w = w\<lparr>browser_bots := Map.empty\<rparr>"

definition consume_next_submit :: "pyval \<Rightarrow> worker \<Rightarrow> (exn + pydict) \<times> worker" where
  "consume_next_submit participant_code w =
     (case dict_pop (prepared_submits w) participant_code of
        Inl e \<Rightarrow> (Inl e, w)
      | Inr (submission, rest) \<Rightarrow>
          (Inr (pop_key_default ''page_class'' submission), w\<lparr>prepared_submits := rest\<rparr>))"

definition not_loaded_message :: "pyval \<Rightarrow> string" where
  "not_loaded_message participant_code =
     ''Participant '' @ py_str participant_code @
     '' not loaded in botworker. The botworker only stores the most recent '' @
     py_str (PInt SESSIONS_PRUNE_LIMIT) @
     '' sessions, and discards older sessions. Or, maybe the botworker was restarted after the session was created.''"

definition prepare_next_submit ::
  "pyval \<Rightarrow> pyval \<Rightarrow> pyval \<Rightarrow> worker \<Rightarrow> (exn + pydict) \<times> worker" where
  "prepare_next_submit participant_code path' html' w =
     (case dict_getitem (browser_bots w) participant_code of
        Inl e \<Rightarrow>
          (if is_KeyError e
           then (Inr [(''request_error'', PStr (not_loaded_message participant_code))], w)
           else (Inl e, w))
      | Inr b \<Rightarrow>
          (let b1 = b\<lparr>path := path', html := html'\<rparr>;
               w1 = w\<lparr>browser_bots := (browser_bots w)(participant_code \<mapsto> b1)\<rparr>
           in if prepared_submits w1 participant_code \<noteq> None then (Inr [], w1)
              else
                (case next_gen (submits_generator b1) of
                   (r, g) \<Rightarrow>
                     (let w2 = w1\<lparr>browser_bots :=
                            (browser_bots w1)(participant_code \<mapsto> b1\<lparr>submits_generator := g\<rparr>)\<rparr>
                      in case r of
                           Inl e \<Rightarrow>
                             (if is_StopIteration e
                              then (Inr [], w2\<lparr>prepared_submits :=
                                      (prepared_submits w2)(participant_code \<mapsto> [])\<rparr>)
                              else (Inl e, w2))
                         | Inr yielded \<Rightarrow>
                             (case pop_key ''page_class'' yielded of
                                Inl e \<Rightarrow> (Inl e, w2)
                              | Inr (page_class, submission) \<Rightarrow>
                                  (Inr submission, w2\<lparr>prepared_submits :=
                                      (prepared_submits w2)(participant_code \<mapsto> submission)\<rparr>))))))"

definition Worker_ping :: "pyval list \<Rightarrow> pydict \<Rightarrow> pydict" where
  "Worker_ping args kwargs = [(''ok'', PBool True)]"

section \<open>Values as Python reads them\<close>

text \<open>\<^verbatim>\<open>v[k]\<close>, \<^verbatim>\<open>v.get(k, default)\<close>, \<^verbatim>\<open>k in v\<close> and the truth value of \<^verbatim>\<open>v\<close>.\<close>

definition subscript :: "pyval \<Rightarrow> string \<Rightarrow> exn + pyval" where
  "subscript v k =
     (case v of
        PDict d \<Rightarrow> (case map_of d k of None \<Rightarrow> Inl (KeyError (PStr k)) | Some x \<Rightarrow> Inr x)
      | _ \<Rightarrow> Inl (TypeError ''indices must be integers, or the value is not subscriptable''))"

definition py_get :: "pyval \<Rightarrow> string \<Rightarrow> pyval \<Rightarrow> exn + pyval" where
  "py_get v k dflt =
     (case v of
        PDict d \<Rightarrow> (case map_of d k of None \<Rightarrow> Inr dflt | Some x \<Rightarrow> Inr x)
      | _ \<Rightarrow> Inl (AttributeError ''get''))"

definition py_in :: "string \<Rightarrow> pyval \<Rightarrow> exn + bool" where
  "py_in k v =
     (case v of
        PDict d \<Rightarrow> Inr (has_key k d)
      | PList xs \<Rightarrow> Inr (PStr k \<in> set xs)
      | PStr s \<Rightarrow> Inr (sublist k s)
      | _ \<Rightarrow> Inl (TypeError ''argument is not iterable''))"

fun truthy :: "pyval \<Rightarrow> bool" where
  "truthy PNone = False"
| "truthy (PBool b) = b"
| "truthy (PInt i) = (i \<noteq> 0)"
| "truthy (PStr s) = (s \<noteq> [])"
| "truthy (PList xs) = (xs \<noteq> [])"
| "truthy (PDict d) = (d \<noteq> [])"
| "truthy (PObj n) = True"

section \<open>The Redis connection\<close>

text \<open>
  A Redis list holds byte strings. The model keeps of a byte string what
  \<^verbatim>\<open>json.loads(message_bytes.decode('utf-8'))\<close> makes of it: the value it
  decodes to, or that it does not decode. \<^verbatim>\<open>json.dumps\<close> raises on a value
  that holds an object which is not JSON.
\<close>

datatype bytes = Undecodable string | Json pyval

fun serializable :: "pyval \<Rightarrow> bool" where
  "serializable (PObj n) = False"
| "serializable (PList xs) = list_all serializable xs"
| "serializable (PDict d) = list_all serializable (map snd d)"
| "serializable v = True"

definition json_dumps :: "pyval \<Rightarrow> exn + bytes" where
  "json_dumps v =
     (if serializable v then Inr (Json v) else Inl (TypeError ''is not JSON serializable''))"

fun json_loads :: "bytes \<Rightarrow> exn + pyval" where
  "json_loads (Json v) = Inr v"
| "json_loads (Undecodable b) = Inl (ValueError ''No JSON object could be decoded'')"

text \<open>
  The store maps a key to its list; a key that does not exist has the empty list.
  \<^verbatim>\<open>blpop\<close> blocks until one of the lists has an element or the timeout
  passes: \<open>others\<close> is what the other processes on the connection do to the store
  in that time.
\<close>

type_synonym redis = "string \<Rightarrow> bytes list"

definition rpush :: "string \<Rightarrow> bytes \<Rightarrow> redis \<Rightarrow> redis" where
  "rpush key v r = r(key := r key @ [v])"

definition blpop ::
  "(redis \<Rightarrow> redis) \<Rightarrow> string list \<Rightarrow> redis \<Rightarrow> (string \<times> bytes) option \<times> redis" where
  "blpop others keys r =
     (let r1 = others r in
      case find (\<lambda>k. r1 k \<noteq> []) keys of
        None \<Rightarrow> (None, r1)
      | Some k \<Rightarrow>
          (case r1 k of
             [] \<Rightarrow> (None, r1)
           | v # vs \<Rightarrow> (Some (k, v), r1(k := vs))))"

section \<open>The worker's receive loop\<close>

text \<open>
  What the loop takes from outside this file: the participant lookup and the bot
  constructor, \<^verbatim>\<open>repr\<close> and \<^verbatim>\<open>traceback.format_exc\<close> on an exception, and
  what the Redis client does with a key that is not a string.
\<close>

record runtime =
  participant_get :: "pyval \<Rightarrow> pyval option"
  participant_bot :: "pyval \<Rightarrow> bot"
  repr :: "exn \<Rightarrow> string"
  format_exc :: "exn \<Rightarrow> string"
  encode_key :: "pyval \<Rightarrow> exn + string"

text \<open>
  \<^verbatim>\<open>f(*args, **kwargs)\<close>: unpacking, then binding to the parameter names.
  Every mismatch raises \<^verbatim>\<open>TypeError\<close>; the texts stand for Python's.
\<close>

definition star_args :: "pyval \<Rightarrow> exn + pyval list" where
  "star_args args =
     (case args of
        PList xs \<Rightarrow> Inr xs
      | PStr s \<Rightarrow> Inr (map (\<lambda>c. PStr [c]) s)
      | PDict d \<Rightarrow> Inr (map (\<lambda>kv. PStr (fst kv)) d)
      | _ \<Rightarrow> Inl (TypeError ''argument after * must be an iterable''))"

definition star_kwargs :: "pyval \<Rightarrow> exn + pydict" where
  "star_kwargs kwargs =
     (case kwargs of
        PDict d \<Rightarrow> Inr d
      | _ \<Rightarrow> Inl (TypeError ''argument after ** must be a mapping''))"

definition bind_params :: "string list \<Rightarrow> pyval list \<Rightarrow> pydict \<Rightarrow> exn + pyval list" where
  "bind_params names args kwargs =
     (if length names < length args
      then Inl (TypeError ''too many positional arguments'')
      else if \<exists>k \<in> set (map fst kwargs). k \<notin> set names
      then Inl (TypeError ''got an unexpected keyword argument'')
      else if \<exists>k \<in> set (take (length args) names). has_key k kwargs
      then Inl (TypeError ''got multiple values for argument'')
      else if \<exists>k \<in> set (drop (length args) names). \<not> has_key k kwargs
      then Inl (TypeError ''missing required argument'')
      else Inr (args @ List.map_filter (map_of kwargs) (drop (length args) names)))"

type_synonym py_method = "pyval list \<Rightarrow> pydict \<Rightarrow> worker \<Rightarrow> (exn + pyval) \<times> worker"

definition returning :: "(exn + pydict) \<times> worker \<Rightarrow> (exn + pyval) \<times> worker" where
  "returning res = (case res of (Inl e, w) \<Rightarrow> (Inl e, w) | (Inr d, w) \<Rightarrow> (Inr (PDict d), w))"

definition call_prepare_next_submit :: py_method where
  "call_prepare_next_submit args kwargs w =
     (case bind_params [''participant_code'', ''path'', ''html''] args kwargs of
        Inr [participant_code, path', html'] \<Rightarrow>
          returning (prepare_next_submit participant_code path' html' w)
      | Inr _ \<Rightarrow> (Inl (TypeError ''missing required argument''), w)
      | Inl e \<Rightarrow> (Inl e, w))"

definition call_consume_next_submit :: py_method where
  "call_consume_next_submit args kwargs w =
     (case bind_params [''participant_code''] args kwargs of
        Inr [participant_code] \<Rightarrow> returning (consume_next_submit participant_code w)
      | Inr _ \<Rightarrow> (Inl (TypeError ''missing required argument''), w)
      | Inl e \<Rightarrow> (Inl e, w))"

definition call_initialize_participant :: "runtime \<Rightarrow> py_method" where
  "call_initialize_participant rt args kwargs w =
     (case bind_params [''participant_code''] args kwargs of
        Inr [participant_code] \<Rightarrow>
          returning (initialize_participant (participant_get rt) (participant_bot rt)
            participant_code w)
      | Inr _ \<Rightarrow> (Inl (TypeError ''missing required argument''), w)
      | Inl e \<Rightarrow> (Inl e, w))"

definition call_clear_all :: py_method where
  "call_clear_all args kwargs w =
     (case bind_params [] args kwargs of
        Inr _ \<Rightarrow> (Inr PNone, clear_all w)
      | Inl e \<Rightarrow> (Inl e, w))"

definition call_ping :: py_method where
  "call_ping args kwargs w =
     (if has_key ''self'' kwargs
      then (Inl (TypeError ''got multiple values for argument''), w)
      else (Inr (PDict (Worker_ping args kwargs)), w))"

definition commands :: "runtime \<Rightarrow> pyval \<rightharpoonup> py_method" where
  "commands rt = map_of
     [(PStr ''prepare_next_submit'', call_prepare_next_submit),
      (PStr ''consume_next_submit'', call_consume_next_submit),
      (PStr ''initialize_participant'', call_initialize_participant rt),
      (PStr ''clear_all'', call_clear_all),
      (PStr ''ping'', call_ping)]"

definition get_method :: "runtime \<Rightarrow> pyval \<Rightarrow> exn + py_method" where
  "get_method rt command_name = dict_getitem (commands rt) command_name"

text \<open>The body of the \<^verbatim>\<open>try\<close> of \<^verbatim>\<open>redis_listen\<close>.\<close>

definition run_command :: "runtime \<Rightarrow> pyval \<Rightarrow> worker \<Rightarrow> (exn + pyval) \<times> worker" where
  "run_command rt message w =
     (case subscript message ''command'' of
        Inl e \<Rightarrow> (Inl e, w)
      | Inr cmd \<Rightarrow>
     (case py_get message ''args'' (PList []) of
        Inl e \<Rightarrow> (Inl e, w)
      | Inr args \<Rightarrow>
     (case py_get message ''kwargs'' (PDict []) of
        Inl e \<Rightarrow> (Inl e, w)
      | Inr kwargs \<Rightarrow>
     (case get_method rt cmd of
        Inl e \<Rightarrow> (Inl e, w)
      | Inr callee \<Rightarrow>
     (case star_args args of
        Inl e \<Rightarrow> (Inl e, w)
      | Inr a \<Rightarrow>
     (case star_kwargs kwargs of
        Inl e \<Rightarrow> (Inl e, w)
      | Inr k \<Rightarrow> callee a k w))))))"

definition failure_envelope :: "runtime \<Rightarrow> exn \<Rightarrow> pyval" where
  "failure_envelope rt exc =
     PDict [(''response_error'', PStr (repr rt exc)), (''traceback'', PStr (format_exc rt exc))]"

text \<open>
  One message taken from a listen key, from \<^verbatim>\<open>key, message_bytes = result\<close> to
  the end of the \<^verbatim>\<open>finally\<close>. \<open>Inl\<close> is an exception that leaves
  \<^verbatim>\<open>redis_listen\<close>; the state is the one it leaves behind.
\<close>

definition handle_message ::
  "runtime \<Rightarrow> bytes \<Rightarrow> worker \<times> redis \<Rightarrow> (exn + unit) \<times> (worker \<times> redis)" where
  "handle_message rt message_bytes s =
     (case s of (w, r) \<Rightarrow>
     (case json_loads message_bytes of
        Inl e \<Rightarrow> (Inl e, (w, r))
      | Inr message \<Rightarrow>
     (case subscript message ''response_key'' of
        Inl e \<Rightarrow> (Inl e, (w, r))
      | Inr response_key \<Rightarrow>
     (case run_command rt message w of
        (res, w') \<Rightarrow>
     (let retval = (case res of Inl exc \<Rightarrow> failure_envelope rt exc | Inr v \<Rightarrow> v) in
      case json_dumps (if truthy retval then retval else PDict []) of
        Inl e \<Rightarrow> (Inl e, (w', r))
      | Inr retval_json \<Rightarrow>
     (case (case response_key of PStr k \<Rightarrow> Inr k | v \<Rightarrow> encode_key rt v) of
        Inl e \<Rightarrow> (Inl e, (w', r))
      | Inr k \<Rightarrow> (Inr (), (w', rpush k retval_json r))))))))"

text \<open>
  \<^verbatim>\<open>redis_listen\<close> never returns; it runs until an exception leaves it. The
  model runs it for a given number of \<^verbatim>\<open>blpop\<close> calls: \<open>Inr\<close> is the loop
  still running after them.
\<close>

fun redis_listen ::
  "runtime \<Rightarrow> (redis \<Rightarrow> redis) \<Rightarrow> nat \<Rightarrow> worker \<times> redis \<Rightarrow> (exn + unit) \<times> (worker \<times> redis)" where
  "redis_listen rt others 0 s = (Inr (), s)"
| "redis_listen rt others (Suc n) (w, r) =
     (case blpop others (redis_listen_keys w) r of
        (None, r') \<Rightarrow> redis_listen rt others n (w, r')
      | (Some (key, message_bytes), r') \<Rightarrow>
          (case handle_message rt message_bytes (w, r') of
             (Inl e, s') \<Rightarrow> (Inl e, s')
           | (Inr u, s') \<Rightarrow> redis_listen rt others n s'))"

section \<open>The caller's side\<close>

text \<open>
  \<^verbatim>\<open>participant_code[0]\<close> raises on the empty string.
\<close>

definition make_redis_key :: "string \<Rightarrow> exn + string" where
  "make_redis_key participant_code =
     (case participant_code of
        [] \<Rightarrow> Inl (IndexError ''string index out of range'')
      | c # cs \<Rightarrow> Inr (REDIS_KEY_PREFIX @ ''-'' @ [c]))"

definition ping_failed :: string where
  "ping_failed =
     ''Ping to botworker failed. '' @
     ''If you want to use browser bots, '' @
     ''you need to be running the botworker.'' @
     ''Otherwise, set (\"use_browser_bots\": False) in the session config '' @
     ''in settings.py.''"

definition no_submission :: string where
  "no_submission = ''botworker is running but did not return a submission.''"

definition ping :: "(redis \<Rightarrow> redis) \<Rightarrow> string \<Rightarrow> redis \<Rightarrow> (exn + unit) \<times> redis" where
  "ping others participant_code r =
     (let response_key = REDIS_KEY_PREFIX @ ''-ping-'' @ participant_code;
          msg = PDict [(''command'', PStr ''ping''), (''response_key'', PStr response_key)]
      in case make_redis_key participant_code of
           Inl e \<Rightarrow> (Inl e, r)
         | Inr key \<Rightarrow>
        (case json_dumps msg of
           Inl e \<Rightarrow> (Inl e, r)
         | Inr msg_json \<Rightarrow>
        (case blpop others [response_key] (rpush key msg_json r) of
           (None, r') \<Rightarrow> (Inl (Exception (PStr ping_failed)), r')
         | (Some result, r') \<Rightarrow> (Inr (), r'))))"

text \<open>
  \<^verbatim>\<open>EphemeralBrowserBot\<close>: the participant's code, the path of the request
  and the session's code, as \<^verbatim>\<open>__init__\<close> reads them from the view.
\<close>

record ephemeral_browser_bot =
  bot_participant_code :: string
  bot_path :: string
  bot_session_code :: string

definition prepare_next_submit_redis ::
  "(redis \<Rightarrow> redis) \<Rightarrow> ephemeral_browser_bot \<Rightarrow> string \<Rightarrow> redis \<Rightarrow> (exn + pyval) \<times> redis" where
  "prepare_next_submit_redis others self html' r =
     (let participant_code = bot_participant_code self;
          response_key = REDIS_KEY_PREFIX @ ''-prepare_next_submit-'' @ participant_code;
          msg = PDict
            [(''command'', PStr ''prepare_next_submit''),
             (''kwargs'', PDict
                [(''participant_code'', PStr participant_code),
                 (''path'', PStr (bot_path self)),
                 (''html'', PStr html')]),
             (''response_key'', PStr response_key)]
      in case make_redis_key participant_code of
           Inl e \<Rightarrow> (Inl e, r)
         | Inr key \<Rightarrow>
        (case json_dumps msg of
           Inl e \<Rightarrow> (Inl e, r)
         | Inr msg_json \<Rightarrow>
        (case blpop others [response_key] (rpush key msg_json r) of
           (None, r1) \<Rightarrow>
             (case ping others participant_code r1 of
                (Inl e, r2) \<Rightarrow> (Inl e, r2)
              | (Inr u, r2) \<Rightarrow> (Inl (Exception (PStr no_submission)), r2))
         | (Some (key, submit_bytes), r1) \<Rightarrow> (json_loads submit_bytes, r1))))"

definition prepare_next_submit_in_process ::
  "ephemeral_browser_bot \<Rightarrow> string \<Rightarrow> worker \<Rightarrow> (exn + pyval) \<times> worker" where
  "prepare_next_submit_in_process self html' browser_bot_worker =
     returning (prepare_next_submit (PStr (bot_participant_code self)) (PStr (bot_path self))
       (PStr html') browser_bot_worker)"

definition raise_request_error :: "pyval \<Rightarrow> exn + unit" where
  "raise_request_error result =
     (case py_in ''request_error'' result of
        Inl e \<Rightarrow> Inl e
      | Inr False \<Rightarrow> Inr ()
      | Inr True \<Rightarrow>
          (case subscript result ''request_error'' of
             Inl e \<Rightarrow> Inl e
           | Inr m \<Rightarrow> Inl (AssertionError m)))"

text \<open>
  \<^verbatim>\<open>EphemeralBrowserBot.prepare_next_submit\<close>. \<open>USE_REDIS\<close> is the flag of
  \<^verbatim>\<open>otree.common_internal\<close>; the state is the worker of this process
  (\<^verbatim>\<open>browser_bot_worker\<close>) and the Redis store.
\<close>

definition bot_prepare_next_submit ::
  "bool \<Rightarrow> (redis \<Rightarrow> redis) \<Rightarrow> ephemeral_browser_bot \<Rightarrow> string \<Rightarrow> worker \<times> redis \<Rightarrow>
     (exn + unit) \<times> (worker \<times> redis)" where
  "bot_prepare_next_submit USE_REDIS others self html' s =
     (case s of (w, r) \<Rightarrow>
      if USE_REDIS then
        (case prepare_next_submit_redis others self html' r of
           (Inl e, r') \<Rightarrow> (Inl e, (w, r'))
         | (Inr result, r') \<Rightarrow>
             (case py_in ''response_error'' result of
                Inl e \<Rightarrow> (Inl e, (w, r'))
              | Inr True \<Rightarrow>
                  (case subscript result ''traceback'' of
                     Inl e \<Rightarrow> (Inl e, (w, r'))
                   | Inr tb \<Rightarrow> (Inl (Exception tb), (w, r')))
              | Inr False \<Rightarrow> (raise_request_error result, (w, r'))))
      else
        (case prepare_next_submit_in_process self html' w of
           (Inl e, w') \<Rightarrow> (Inl e, (w', r))
         | (Inr result, w') \<Rightarrow> (raise_request_error result, (w', r))))"

definition get_next_post_data_redis ::
  "(redis \<Rightarrow> redis) \<Rightarrow> ephemeral_browser_bot \<Rightarrow> redis \<Rightarrow> (exn + pyval) \<times> redis" where
  "get_next_post_data_redis others self r =
     (let participant_code = bot_participant_code self;
          response_key = REDIS_KEY_PREFIX @ ''-consume_next_submit-'' @ participant_code;
          msg = PDict
            [(''command'', PStr ''consume_next_submit''),
             (''kwargs'', PDict [(''participant_code'', PStr participant_code)]),
             (''response_key'', PStr response_key)]
      in case make_redis_key participant_code of
           Inl e \<Rightarrow> (Inl e, r)
         | Inr key \<Rightarrow>
        (case json_dumps msg of
           Inl e \<Rightarrow> (Inl e, r)
         | Inr msg_json \<Rightarrow>
        (case blpop others [response_key] (rpush key msg_json r) of
           (None, r1) \<Rightarrow>
             (case ping others participant_code r1 of
                (Inl e, r2) \<Rightarrow> (Inl e, r2)
              | (Inr u, r2) \<Rightarrow> (Inl (Exception (PStr no_submission)), r2))
         | (Some (key, submit_bytes), r1) \<Rightarrow> (json_loads submit_bytes, r1))))"

definition post_data_of :: "pyval \<Rightarrow> exn + pyval" where
  "post_data_of submission =
     (if truthy submission then subscript submission ''post_data''
      else Inl (StopIteration ''No more submits''))"

definition get_next_post_data ::
  "bool \<Rightarrow> (redis \<Rightarrow> redis) \<Rightarrow> ephemeral_browser_bot \<Rightarrow> worker \<times> redis \<Rightarrow>
     (exn + pyval) \<times> (worker \<times> redis)" where
  "get_next_post_data USE_REDIS others self s =
     (case s of (w, r) \<Rightarrow>
      if USE_REDIS then
        (case get_next_post_data_redis others self r of
           (Inl e, r') \<Rightarrow> (Inl e, (w, r'))
         | (Inr submission, r') \<Rightarrow> (post_data_of submission, (w, r')))
      else
        (case dict_pop (prepared_submits w) (PStr (bot_participant_code self)) of
           Inl e \<Rightarrow> (Inl e, (w, r))
         | Inr (submission, rest) \<Rightarrow>
             (post_data_of (PDict submission), (w\<lparr>prepared_submits := rest\<rparr>, r))))"

section \<open>The administrative flush\<close>

text \<open>
  \<^verbatim>\<open>scan_iter(match=...)\<close> gives the keys that match a glob-style pattern,
  as Redis documents it: \<^verbatim>\<open>*\<close> is any run of characters, \<^verbatim>\<open>?\<close> any one
  character, \<^verbatim>\<open>[...]\<close> one character of a class (with \<^verbatim>\<open>a-z\<close> ranges and
  \<^verbatim>\<open>^\<close> for negation), and a backslash takes the next character as it is.
\<close>

datatype glob = Lit char | AnyChar | AnySeq | Class bool "(char \<times> char) list"

fun glob_parse :: "string \<Rightarrow> glob list"
  and glob_class :: "bool \<Rightarrow> (char \<times> char) list \<Rightarrow> string \<Rightarrow> glob list" where
  "glob_parse [] = []"
| "glob_parse (c # p) =
     (if c = CHR ''*'' then AnySeq # glob_parse p
      else if c = CHR ''?'' then AnyChar # glob_parse p
      else if c = CHR ''['' then
        (case p of
           [] \<Rightarrow> glob_class False [] p
         | d # p' \<Rightarrow> if d = CHR ''^'' then glob_class True [] p' else glob_class False [] p)
      else if c = CHR 0x5C then
        (case p of [] \<Rightarrow> [Lit c] | d # p' \<Rightarrow> Lit d # glob_parse p')
      else Lit c # glob_parse p)"
| "glob_class neg rs [] = [Class neg rs]"
| "glob_class neg rs (c # p) =
     (if c = CHR 0x5C \<and> p \<noteq> [] then glob_class neg (rs @ [(hd p, hd p)]) (tl p)
      else if c = CHR '']'' then Class neg rs # glob_parse p
      else if 2 \<le> length p \<and> hd p = CHR ''-'' then
        glob_class neg (rs @ [(c, hd (tl p))]) (tl (tl p))
      else glob_class neg (rs @ [(c, c)]) p)"

definition in_range :: "char \<Rightarrow> char \<times> char \<Rightarrow> bool" where
  "in_range c ab =
     (let a = (of_char (fst ab) :: nat); b = of_char (snd ab); n = of_char c
      in (a \<le> n \<and> n \<le> b) \<or> (b \<le> n \<and> n \<le> a))"

fun glob_char :: "glob \<Rightarrow> char \<Rightarrow> bool" where
  "glob_char (Lit a) c = (a = c)"
| "glob_char AnyChar c = True"
| "glob_char AnySeq c = True"
| "glob_char (Class neg rs) c = (list_ex (in_range c) rs \<noteq> neg)"

fun glob_match :: "glob list \<Rightarrow> string \<Rightarrow> bool" where
  "glob_match [] s = (s = [])"
| "glob_match (AnySeq # gs) [] = glob_match gs []"
| "glob_match (AnySeq # gs) (c # s) = (glob_match gs (c # s) \<or> glob_match (AnySeq # gs) s)"
| "glob_match (g # gs) [] = False"
| "glob_match (g # gs) (c # s) = (glob_char g c \<and> glob_match gs s)"

definition stringmatch :: "string \<Rightarrow> string \<Rightarrow> bool" where
  "stringmatch pattern key = glob_match (glob_parse pattern) key"

text \<open>
  \<^verbatim>\<open>redis_flush_bots\<close> deletes every key that matches; a deleted key has the
  empty list.
\<close>

definition flush_pattern :: "string \<Rightarrow> string" where
  "flush_pattern char_range = REDIS_KEY_PREFIX @ ''['' @ char_range @ '']*''"

definition redis_flush_bots :: "string \<Rightarrow> string \<Rightarrow> redis \<Rightarrow> redis" where
  "redis_flush_bots SESSION_CODE_CHARSET char_range r =
     (let char_range = (if char_range = [] then SESSION_CODE_CHARSET else char_range)
      in (\<lambda>key. if stringmatch (flush_pattern char_range) key then [] else r key))"

section \<open>Requests and arrivals\<close>

text \<open>
  The messages the callers push, as \<^verbatim>\<open>ping\<close>,
  \<^verbatim>\<open>prepare_next_submit_redis\<close> and \<^verbatim>\<open>get_next_post_data_redis\<close>
  build them.
\<close>

definition ping_request :: "string \<Rightarrow> pyval" where
  "ping_request participant_code =
     PDict [(''command'', PStr ''ping''),
            (''response_key'', PStr (REDIS_KEY_PREFIX @ ''-ping-'' @ participant_code))]"

definition prepare_request :: "ephemeral_browser_bot \<Rightarrow> string \<Rightarrow> pyval" where
  "prepare_request self html' =
     PDict [(''command'', PStr ''prepare_next_submit''),
            (''kwargs'', PDict [(''participant_code'', PStr (bot_participant_code self)),
                                (''path'', PStr (bot_path self)),
                                (''html'', PStr html')]),
            (''response_key'',
             PStr (REDIS_KEY_PREFIX @ ''-prepare_next_submit-'' @ bot_participant_code self))]"

definition consume_request :: "ephemeral_browser_bot \<Rightarrow> pyval" where
  "consume_request self =
     PDict [(''command'', PStr ''consume_next_submit''),
            (''kwargs'', PDict [(''participant_code'', PStr (bot_participant_code self))]),
            (''response_key'',
             PStr (REDIS_KEY_PREFIX @ ''-consume_next_submit-'' @ bot_participant_code self))]"

text \<open>
  The exchange that \<^verbatim>\<open>prepare_next_submit_redis\<close> and
  \<^verbatim>\<open>get_next_post_data_redis\<close> both make with their own message and
  response key: push, wait for the answer, and on a timeout ping the worker.
\<close>

definition round_trip ::
  "(redis \<Rightarrow> redis) \<Rightarrow> string \<Rightarrow> string \<Rightarrow> pyval \<Rightarrow> redis \<Rightarrow> (exn + pyval) \<times> redis" where
  "round_trip others participant_code response_key msg r =
     (case make_redis_key participant_code of
        Inl e \<Rightarrow> (Inl e, r)
      | Inr key \<Rightarrow>
     (case json_dumps msg of
        Inl e \<Rightarrow> (Inl e, r)
      | Inr msg_json \<Rightarrow>
     (case blpop others [response_key] (rpush key msg_json r) of
        (None, r1) \<Rightarrow>
          (case ping others participant_code r1 of
             (Inl e, r2) \<Rightarrow> (Inl e, r2)
           | (Inr u, r2) \<Rightarrow> (Inl (Exception (PStr no_submission)), r2))
      | (Some (key, submit_bytes), r1) \<Rightarrow> (json_loads submit_bytes, r1))))"

text \<open>
  The store that a caller finds when its wait ends, after it pushed \<open>msg\<close> on
  \<open>key\<close>: its push, then what the other processes did in the meantime. The
  wait on a response key times out when that key's list is empty there.
\<close>

definition store_after :: "(redis \<Rightarrow> redis) \<Rightarrow> string \<Rightarrow> pyval \<Rightarrow> redis \<Rightarrow> redis" where
  "store_after others key msg r = others (rpush key (Json msg) r)"

text \<open>
  The other processes of the program: nobody, so that the store stays as it is; a
  worker in state \<open>w\<close> that makes one turn of its loop; and a worker that is
  busy while one message waits on its listen keys and takes two messages in
  turn once a second one waits.
\<close>

definition nobody :: "redis \<Rightarrow> redis" where
  "nobody r = r"

definition serving :: "runtime \<Rightarrow> worker \<Rightarrow> redis \<Rightarrow> redis" where
  "serving rt w r = snd (snd (redis_listen rt (\<lambda>r. r) (Suc 0) (w, r)))"

definition late_worker :: "runtime \<Rightarrow> worker \<Rightarrow> redis \<Rightarrow> redis" where
  "late_worker rt w r =
     (if list_ex (\<lambda>k. 2 \<le> length (r k)) (redis_listen_keys w)
      then snd (snd (redis_listen rt (\<lambda>r. r) (Suc (Suc 0)) (w, r)))
      else r)"

section \<open>Scenarios\<close>

text \<open>
  Concrete states for the scenarios below: a worker holding one session, for the
  participant \<^verbatim>\<open>abc123\<close>, whose generator has the given steps left; a
  submission as the bot yields it, with its page class, and one without.
\<close>

definition page1_submission :: pydict where
  "page1_submission =
     [(''page_class'', PObj ''Page1''), (''post_data'', PDict [(''field'', PStr ''1'')])]"

definition untagged_submission :: pydict where
  "untagged_submission = [(''post_data'', PDict [(''field'', PStr ''1'')])]"

definition session_of :: "gen_step list \<Rightarrow> worker" where
  "session_of g =
     \<lparr>browser_bots = [PStr ''abc123'' \<mapsto> \<lparr>path = PNone, html = PNone, submits_generator = g\<rparr>],
      prepared_submits = Map.empty,
      redis_listen_keys = [''otree-bots-a'']\<rparr>"

text \<open>
  The same worker with a submission already prepared, a runtime whose lookup finds
  no participant, and a Redis store with no key.
\<close>

definition prepared_abc123 :: worker where
  "prepared_abc123 =
     (session_of [])\<lparr>prepared_submits := [PStr ''abc123'' \<mapsto> untagged_submission]\<rparr>"


definition page2_submission :: pydict where
  "page2_submission =
     [(''page_class'', PObj ''Page2''), (''post_data'', PDict [(''field'', PStr ''2'')])]"

definition found_abc123 :: "pyval \<Rightarrow> pyval option" where
  "found_abc123 code = (if code = PStr ''abc123'' then Some (PStr ''abc123'') else None)"

definition new_bot :: "pyval \<Rightarrow> bot" where
  "new_bot code = \<lparr>path = PNone, html = PNone, submits_generator = [Yield page2_submission]\<rparr>"

definition plain_runtime :: runtime where
  "plain_runtime =
     \<lparr>participant_get = (\<lambda>code. None),
      participant_bot = (\<lambda>code. \<lparr>path = PNone, html = PNone, submits_generator = []\<rparr>),
      repr = (\<lambda>e. ''exception''),
      format_exc = (\<lambda>e. ''Traceback (most recent call last)''),
      encode_key = (\<lambda>v. Inr (py_str v))\<rparr>"

definition empty_redis :: redis where
  "empty_redis = (\<lambda>key. [])"

text \<open>
  The caller for \<^verbatim>\<open>abc123\<close> and a request for a command that the worker
  does not have.
\<close>

definition browser_bot_abc123 :: ephemeral_browser_bot where
  "browser_bot_abc123 =
     \<lparr>bot_participant_code = ''abc123'', bot_path = ''/page1'', bot_session_code = ''s1''\<rparr>"


section \<open>What one call of \<open>prepare_next_submit\<close> does\<close>

lemma str_nat_50: "str_nat 50 = ''50''"
  by (simp add: str_nat.simps [of 50] str_nat.simps [of 5])

lemma not_loaded_text:
  "not_loaded_message c =
     ''Participant '' @ py_str c @ '' not loaded in botworker. The botworker only stores the most recent 50 sessions, and discards older sessions. Or, maybe the botworker was restarted after the session was created.''"
  by (simp add: not_loaded_message_def SESSIONS_PRUNE_LIMIT_def str_nat_50)

lemma prepare_yield_tagged:
  assumes "hashable c" "browser_bots w c = Some b" "prepared_submits w c = None"
    "submits_generator b = Yield yielded # g" "has_key ''page_class'' yielded"
  shows "prepare_next_submit c p h w =
    (Inr (AList.delete ''page_class'' yielded),
     w\<lparr>browser_bots := (browser_bots w)(c \<mapsto> b\<lparr>path := p, html := h, submits_generator := g\<rparr>),
       prepared_submits := (prepared_submits w)(c \<mapsto> AList.delete ''page_class'' yielded)\<rparr>)"
  using assms
  by (auto simp add: prepare_next_submit_def dict_getitem_def pop_key_def has_key_def Let_def)


lemma prepare_exhausted:
  assumes "hashable c" "browser_bots w c = Some b" "prepared_submits w c = None"
    "submits_generator b = []"
  shows "prepare_next_submit c p h w =
    (Inr [],
     w\<lparr>browser_bots := (browser_bots w)(c \<mapsto> b\<lparr>path := p, html := h, submits_generator := []\<rparr>),
       prepared_submits := (prepared_submits w)(c \<mapsto> [])\<rparr>)"
  using assms
  by (auto simp add: prepare_next_submit_def dict_getitem_def Let_def)

lemma prepare_cached:
  assumes "hashable c" "browser_bots w c = Some b" "prepared_submits w c = Some entry"
  shows "prepare_next_submit c p h w =
    (Inr [], w\<lparr>browser_bots := (browser_bots w)(c \<mapsto> b\<lparr>path := p, html := h\<rparr>)\<rparr>)"
  using assms
  by (auto simp add: prepare_next_submit_def dict_getitem_def Let_def)

lemma prepare_first_call:
  assumes "prepare_next_submit c p h w = (Inr r1, w1)" "browser_bots w c = Some b" "hashable c"
  shows "prepared_submits w1 c \<noteq> None"
    and "\<exists>b1. browser_bots w1 c = Some b1 \<and> submits_generator b1 =
          (if prepared_submits w c = None then snd (next_gen (submits_generator b))
           else submits_generator b)"
  using assms
  by (auto simp add: prepare_next_submit_def dict_getitem_def pop_key_def has_key_def Let_def
      split: if_splits prod.splits sum.splits option.splits)

lemma map_of_deleted: "map_of (AList.delete k d) k' = (if k' = k then None else map_of d k')"
  by (simp add: delete_conv')

section \<open>What one message does\<close>




lemma handle_message_success:
  assumes "json_loads message_bytes = Inr (PDict d)"
    and "map_of d ''response_key'' = Some (PStr rk)"
    and "run_command rt (PDict d) w = (Inr v, w')"
    and "serializable v"
  shows "handle_message rt message_bytes (w, r) =
    (Inr (), (w', r(rk := r rk @ [Json (if truthy v then v else PDict [])])))"
  using assms
  by (simp add: handle_message_def subscript_def json_dumps_def rpush_def)

lemma run_command_prepare:
  "run_command rt
     (PDict [(''command'', PStr ''prepare_next_submit''),
             (''kwargs'', PDict [(''participant_code'', c), (''path'', p), (''html'', h)]),
             (''response_key'', rk)]) w =
   returning (prepare_next_submit c p h w)"
  by (simp add: run_command_def subscript_def py_get_def get_method_def commands_def
      dict_getitem_def star_args_def star_kwargs_def call_prepare_next_submit_def
      bind_params_def has_key_def)

lemma run_command_consume:
  "run_command rt
     (PDict [(''command'', PStr ''consume_next_submit''),
             (''kwargs'', PDict [(''participant_code'', c)]),
             (''response_key'', rk)]) w =
   returning (consume_next_submit c w)"
  by (simp add: run_command_def subscript_def py_get_def get_method_def commands_def
      dict_getitem_def star_args_def star_kwargs_def call_consume_next_submit_def
      bind_params_def has_key_def)

lemma run_command_ping:
  "run_command rt (PDict [(''command'', PStr ''ping''), (''response_key'', rk)]) w =
   (Inr (PDict [(''ok'', PBool True)]), w)"
  by (simp add: run_command_def subscript_def py_get_def get_method_def commands_def
      dict_getitem_def star_args_def star_kwargs_def call_ping_def Worker_ping_def has_key_def)


section \<open>What one exchange does\<close>

lemma blpop_timeout: "others r k = [] \<Longrightarrow> blpop others [k] r = (None, others r)"
  by (simp add: blpop_def)

lemma blpop_arrival:
  "others r k \<noteq> [] \<Longrightarrow> \<exists>v r'. blpop others [k] r = (Some (k, v), r')"
  by (cases "others r k") (auto simp add: blpop_def)

lemma ping_unanswered:
  assumes "participant_code = ch # rest"
    and "store_after others (REDIS_KEY_PREFIX @ ''-'' @ [ch]) (ping_request participant_code) r
           (REDIS_KEY_PREFIX @ ''-ping-'' @ participant_code) = []"
  shows "ping others participant_code r =
           (Inl (Exception (PStr ping_failed)),
            store_after others (REDIS_KEY_PREFIX @ ''-'' @ [ch]) (ping_request participant_code) r)"
proof -
  have "blpop others [REDIS_KEY_PREFIX @ ''-ping-'' @ participant_code]
      (rpush (REDIS_KEY_PREFIX @ ''-'' @ [ch]) (Json (ping_request participant_code)) r) =
      (None, others (rpush (REDIS_KEY_PREFIX @ ''-'' @ [ch])
         (Json (ping_request participant_code)) r))"
    using assms(2) by (intro blpop_timeout) (simp add: store_after_def)
  then show ?thesis
    using assms(1)
    by (simp add: ping_def make_redis_key_def json_dumps_def Let_def ping_request_def
        store_after_def)
qed

lemma ping_answered:
  assumes "participant_code = ch # rest"
    and "store_after others (REDIS_KEY_PREFIX @ ''-'' @ [ch]) (ping_request participant_code) r
           (REDIS_KEY_PREFIX @ ''-ping-'' @ participant_code) \<noteq> []"
  shows "fst (ping others participant_code r) = Inr ()"
proof -
  obtain v r' where "blpop others [REDIS_KEY_PREFIX @ ''-ping-'' @ participant_code]
      (rpush (REDIS_KEY_PREFIX @ ''-'' @ [ch]) (Json (ping_request participant_code)) r) =
      (Some (REDIS_KEY_PREFIX @ ''-ping-'' @ participant_code, v), r')"
    using blpop_arrival [of others _ "REDIS_KEY_PREFIX @ ''-ping-'' @ participant_code"] assms(2)
    unfolding store_after_def by blast
  then show ?thesis
    using assms(1)
    by (simp add: ping_def make_redis_key_def json_dumps_def Let_def ping_request_def)
qed

lemma round_trip_timeout:
  assumes "participant_code = ch # rest" and "serializable msg"
    and "store_after others (REDIS_KEY_PREFIX @ ''-'' @ [ch]) msg r response_key = []"
  shows "round_trip others participant_code response_key msg r =
      (case ping others participant_code
              (store_after others (REDIS_KEY_PREFIX @ ''-'' @ [ch]) msg r) of
         (Inl e, r2) \<Rightarrow> (Inl e, r2)
       | (Inr u, r2) \<Rightarrow> (Inl (Exception (PStr no_submission)), r2))"
proof -
  have "blpop others [response_key] (rpush (REDIS_KEY_PREFIX @ ''-'' @ [ch]) (Json msg) r) =
      (None, others (rpush (REDIS_KEY_PREFIX @ ''-'' @ [ch]) (Json msg) r))"
    using assms(3) by (intro blpop_timeout) (simp add: store_after_def)
  then show ?thesis
    using assms(1,2)
    by (simp add: round_trip_def make_redis_key_def json_dumps_def store_after_def)
qed

lemma round_trip_unreachable:
  assumes "participant_code = ch # rest" and "serializable msg"
    and "store_after others (REDIS_KEY_PREFIX @ ''-'' @ [ch]) msg r response_key = []"
    and "store_after others (REDIS_KEY_PREFIX @ ''-'' @ [ch]) (ping_request participant_code)
           (store_after others (REDIS_KEY_PREFIX @ ''-'' @ [ch]) msg r)
           (REDIS_KEY_PREFIX @ ''-ping-'' @ participant_code) = []"
  shows "round_trip others participant_code response_key msg r =
      (Inl (Exception (PStr ping_failed)),
       store_after others (REDIS_KEY_PREFIX @ ''-'' @ [ch]) (ping_request participant_code)
         (store_after others (REDIS_KEY_PREFIX @ ''-'' @ [ch]) msg r))"
proof -
  note round_trip_timeout [OF assms(1,2,3)]
  also have "(case ping others participant_code
              (store_after others (REDIS_KEY_PREFIX @ ''-'' @ [ch]) msg r) of
         (Inl e, r2) \<Rightarrow> (Inl e, r2)
       | (Inr u, r2) \<Rightarrow> (Inl (Exception (PStr no_submission)), r2)) =
      (Inl (Exception (PStr ping_failed)),
       store_after others (REDIS_KEY_PREFIX @ ''-'' @ [ch]) (ping_request participant_code)
         (store_after others (REDIS_KEY_PREFIX @ ''-'' @ [ch]) msg r))"
    by (simp only: ping_unanswered [OF assms(1,4)] prod.case sum.case)
  finally show ?thesis .
qed

lemma round_trip_unresponsive:
  assumes "participant_code = ch # rest" and "serializable msg"
    and "store_after others (REDIS_KEY_PREFIX @ ''-'' @ [ch]) msg r response_key = []"
    and "store_after others (REDIS_KEY_PREFIX @ ''-'' @ [ch]) (ping_request participant_code)
           (store_after others (REDIS_KEY_PREFIX @ ''-'' @ [ch]) msg r)
           (REDIS_KEY_PREFIX @ ''-ping-'' @ participant_code) \<noteq> []"
  shows "fst (round_trip others participant_code response_key msg r) =
      Inl (Exception (PStr no_submission))"
proof -
  obtain r2 where "ping others participant_code
      (store_after others (REDIS_KEY_PREFIX @ ''-'' @ [ch]) msg r) = (Inr (), r2)"
    using ping_answered [OF assms(1,4)] by (metis prod.collapse)
  then show ?thesis
    by (simp only: round_trip_timeout [OF assms(1,2,3)] prod.case sum.case fst_conv)
qed

lemma serializable_requests:
  "serializable (prepare_request self html')" "serializable (consume_request self)"
  by (simp_all add: prepare_request_def consume_request_def)

lemma redis_calls:
  "prepare_next_submit_redis others self html' r =
     round_trip others (bot_participant_code self)
       (REDIS_KEY_PREFIX @ ''-prepare_next_submit-'' @ bot_participant_code self)
       (prepare_request self html') r"
  "get_next_post_data_redis others self r =
     round_trip others (bot_participant_code self)
       (REDIS_KEY_PREFIX @ ''-consume_next_submit-'' @ bot_participant_code self)
       (consume_request self) r"
  by (simp_all add: prepare_next_submit_redis_def get_next_post_data_redis_def round_trip_def
      prepare_request_def consume_request_def Let_def)

lemma raised_by_prepare:
  "fst (prepare_next_submit_redis others self html' r) = Inl e \<Longrightarrow>
   fst (bot_prepare_next_submit True others self html' (w, r)) = Inl e"
  by (auto simp add: bot_prepare_next_submit_def split: prod.splits sum.splits)

lemma raised_by_get_next_post_data:
  "fst (get_next_post_data_redis others self r) = Inl e \<Longrightarrow>
   fst (get_next_post_data True others self (w, r)) = Inl e"
  by (auto simp add: get_next_post_data_def split: prod.splits sum.splits)

lemma message_texts:
  "ping_failed = ''Ping to botworker failed. If you want to use browser bots, you need to be running the botworker.Otherwise, set (\"use_browser_bots\": False) in the session config in settings.py.''"
  "no_submission = ''botworker is running but did not return a submission.''"
  by (simp_all add: ping_failed_def no_submission_def)

lemma find_the_key: "key \<in> set keys \<Longrightarrow> find (\<lambda>k. k = key) keys = Some key"
  by (induction keys) auto

lemma find_pushed:
  assumes "key \<in> set keys" and "\<forall>k \<in> set keys. r k = []"
  shows "find (\<lambda>k. rpush key m r k \<noteq> []) keys = Some key"
proof -
  have "find (\<lambda>k. rpush key m r k \<noteq> []) keys = find (\<lambda>k. k = key) keys"
    using assms(2) by (intro find_cong) (auto simp add: rpush_def)
  then show ?thesis
    by (simp add: find_the_key [OF assms(1)])
qed

lemma serving_one:
  assumes "key \<in> set (redis_listen_keys w)" and "\<forall>k \<in> set (redis_listen_keys w). r k = []"
    and "json_loads m = Inr (PDict d)" and "map_of d ''response_key'' = Some (PStr rk)"
    and "run_command rt (PDict d) w = (Inr v, w')" and "serializable v" and "rk \<noteq> key"
  shows "serving rt w (rpush key m r) rk = r rk @ [Json (if truthy v then v else PDict [])]"
proof -
  have empty: "r key = []" using assms(1,2) by blast
  have pop: "blpop (\<lambda>r. r) (redis_listen_keys w) (rpush key m r) =
      (Some (key, m), (rpush key m r)(key := []))"
    using find_pushed [OF assms(1,2), of m] empty
    by (simp add: blpop_def) (simp add: rpush_def)
  note handled = handle_message_success [OF assms(3-6), of "(rpush key m r)(key := [])"]
  show ?thesis
    using assms(7) by (simp add: serving_def pop handled) (simp add: rpush_def)
qed

lemma serving_consume:
  assumes "REDIS_KEY_PREFIX @ ''-'' @ [ch] \<in> set (redis_listen_keys w)"
    and "\<forall>k \<in> set (redis_listen_keys w). r k = []"
    and "bot_participant_code self = ch # rest"
    and "prepared_submits w (PStr (bot_participant_code self)) = Some []"
  shows "serving rt w (rpush (REDIS_KEY_PREFIX @ ''-'' @ [ch]) (Json (consume_request self)) r)
           (REDIS_KEY_PREFIX @ ''-consume_next_submit-'' @ bot_participant_code self) =
         r (REDIS_KEY_PREFIX @ ''-consume_next_submit-'' @ bot_participant_code self)
           @ [Json (PDict [])]"
proof -
  let ?key = "REDIS_KEY_PREFIX @ ''-'' @ [ch]"
  let ?rk = "REDIS_KEY_PREFIX @ ''-consume_next_submit-'' @ bot_participant_code self"
  let ?m = "Json (consume_request self)"
  let ?d = "[(''command'', PStr ''consume_next_submit''),
            (''kwargs'', PDict [(''participant_code'', PStr (bot_participant_code self))]),
            (''response_key'', PStr ?rk)]"
  let ?w' = "w\<lparr>prepared_submits :=
          (prepared_submits w)(PStr (bot_participant_code self) := None)\<rparr>"
  have neq: "?rk \<noteq> ?key" by (simp add: REDIS_KEY_PREFIX_def)
  have dec: "json_loads ?m = Inr (PDict ?d)"
    by (simp add: consume_request_def)
  have rkf: "map_of ?d ''response_key'' = Some (PStr ?rk)"
    by simp
  have run: "run_command rt (PDict ?d) w = (Inr (PDict []), ?w')"
    using assms(4)
    by (simp add: run_command_consume returning_def
        consume_next_submit_def dict_pop_def pop_key_default_def)
  have ser: "serializable (PDict [])" by simp
  have "serving rt w (rpush ?key ?m r) ?rk =
      r ?rk @ [Json (if truthy (PDict []) then PDict [] else PDict [])]"
    by (rule serving_one [OF assms(1,2) dec rkf run ser neq])
  then show ?thesis by simp
qed

lemma get_next_post_data_redis_served:
  assumes "REDIS_KEY_PREFIX @ ''-'' @ [ch] \<in> set (redis_listen_keys w)"
    and "\<forall>k \<in> set (redis_listen_keys w). r k = []"
    and "bot_participant_code self = ch # rest"
    and "prepared_submits w (PStr (bot_participant_code self)) = Some []"
    and "r (REDIS_KEY_PREFIX @ ''-consume_next_submit-'' @ bot_participant_code self) = []"
  shows "fst (get_next_post_data_redis (serving rt w) self r) = Inr (PDict [])"
proof -
  note served = serving_consume [OF assms(1-4), of rt]
  show ?thesis
    using served assms(3,5)
    by (simp add: get_next_post_data_redis_def make_redis_key_def
        json_dumps_def blpop_def Let_def consume_request_def)
qed

section \<open>The claims\<close>

text \<open>
  C1, as amended. When the first of two consecutive calls of
  \<open>prepare_next_submit\<close> for a participant with a session returns (it does not
  raise), the second call returns the empty acknowledgement, leaves the cache as
  the first call left it and touches no generator; the first call advanced the
  generator once if the participant had no cache entry, and not at all if it had
  one. The cache is a dictionary, so it holds one entry per participant at most.

  As the claim states it, for every participant with a session, it fails: a
  generator that yields a submission without \<^verbatim>\<open>'page_class'\<close> makes the
  first call raise after it advanced the generator and before it stored anything,
  and the second call advances the generator again. So does a generator that
  raises, as a bot whose assertion fails does: the first call raises with
  nothing stored and the second call, not the first, makes the cache entry.
\<close>

theorem prepare_next_submit_twice:
  assumes "hashable c" and "browser_bots w c = Some b"
    and "prepare_next_submit c p h w = (Inr r1, w1)"
  shows "fst (prepare_next_submit c p2 h2 w1) = Inr []
     \<and> prepared_submits (snd (prepare_next_submit c p2 h2 w1)) = prepared_submits w1
     \<and> (\<forall>k. map_option submits_generator (browser_bots (snd (prepare_next_submit c p2 h2 w1)) k)
            = map_option submits_generator (browser_bots w1 k))
     \<and> map_option submits_generator (browser_bots w1 c) =
          Some (if prepared_submits w c = None then snd (next_gen (submits_generator b))
                else submits_generator b)"
proof -
  from prepare_first_call [OF assms(3) assms(2) assms(1)]
  obtain b1 entry where b1: "browser_bots w1 c = Some b1"
    and g1: "submits_generator b1 =
          (if prepared_submits w c = None then snd (next_gen (submits_generator b))
           else submits_generator b)"
    and entry: "prepared_submits w1 c = Some entry"
    by auto
  have second: "prepare_next_submit c p2 h2 w1 =
      (Inr [], w1\<lparr>browser_bots := (browser_bots w1)(c \<mapsto> b1\<lparr>path := p2, html := h2\<rparr>)\<rparr>)"
    by (rule prepare_cached [OF assms(1) b1 entry])
  show ?thesis
    using b1 g1 by (simp add: second)
qed

theorem prepare_next_submit_twice_witness:
  "hashable (PStr ''abc123'')
   \<and> browser_bots (session_of [Yield page1_submission]) (PStr ''abc123'') =
       Some \<lparr>path = PNone, html = PNone, submits_generator = [Yield page1_submission]\<rparr>
   \<and> fst (prepare_next_submit (PStr ''abc123'') (PStr ''/page1'') (PStr ''<html/>'')
        (session_of [Yield page1_submission])) = Inr untagged_submission
   \<and> fst (prepare_next_submit (PStr ''abc123'') (PStr ''/page1'') (PStr ''<html/>'')
        (snd (prepare_next_submit (PStr ''abc123'') (PStr ''/page1'') (PStr ''<html/>'')
           (session_of [Yield page1_submission])))) = Inr []
   \<and> prepared_submits
        (snd (prepare_next_submit (PStr ''abc123'') (PStr ''/page1'') (PStr ''<html/>'')
           (snd (prepare_next_submit (PStr ''abc123'') (PStr ''/page1'') (PStr ''<html/>'')
              (session_of [Yield page1_submission]))))) =
       prepared_submits
        (snd (prepare_next_submit (PStr ''abc123'') (PStr ''/page1'') (PStr ''<html/>'')
           (session_of [Yield page1_submission])))
   \<and> map_option submits_generator
        (browser_bots
           (snd (prepare_next_submit (PStr ''abc123'') (PStr ''/page1'') (PStr ''<html/>'')
              (session_of [Yield page1_submission]))) (PStr ''abc123'')) = Some []"
proof -
  let ?w = "session_of [Yield page1_submission]"
  let ?c = "PStr ''abc123''"
  have f1: "fst (prepare_next_submit ?c (PStr ''/page1'') (PStr ''<html/>'') ?w) =
      Inr untagged_submission"
    by (simp add: prepare_next_submit_def dict_getitem_def pop_key_def session_of_def
        page1_submission_def untagged_submission_def Let_def)
  have first: "prepare_next_submit ?c (PStr ''/page1'') (PStr ''<html/>'') ?w =
      (Inr untagged_submission,
       snd (prepare_next_submit ?c (PStr ''/page1'') (PStr ''<html/>'') ?w))"
    by (simp add: prod_eq_iff f1)
  have b: "browser_bots ?w ?c =
      Some \<lparr>path = PNone, html = PNone, submits_generator = [Yield page1_submission]\<rparr>"
    by (simp add: session_of_def)
  have h: "hashable ?c" by simp
  have none: "prepared_submits ?w ?c = None"
    by (simp add: session_of_def)
  note concl = prepare_next_submit_twice [OF h b first, of "PStr ''/page1''" "PStr ''<html/>''"]
  show ?thesis using concl h b f1 none by simp
qed

theorem prepare_next_submit_twice_counterexample:
  "browser_bots (session_of [Yield untagged_submission, Yield untagged_submission])
       (PStr ''abc123'') \<noteq> None
   \<and> fst (prepare_next_submit (PStr ''abc123'') (PStr ''/page1'') (PStr ''<html/>'')
        (snd (prepare_next_submit (PStr ''abc123'') (PStr ''/page1'') (PStr ''<html/>'')
           (session_of [Yield untagged_submission, Yield untagged_submission]))))
       = Inl (KeyError (PStr ''page_class''))
   \<and> prepared_submits
        (snd (prepare_next_submit (PStr ''abc123'') (PStr ''/page1'') (PStr ''<html/>'')
           (snd (prepare_next_submit (PStr ''abc123'') (PStr ''/page1'') (PStr ''<html/>'')
              (session_of [Yield untagged_submission, Yield untagged_submission])))))
        (PStr ''abc123'') = None
   \<and> map_option submits_generator
        (browser_bots
           (snd (prepare_next_submit (PStr ''abc123'') (PStr ''/page1'') (PStr ''<html/>'')
              (snd (prepare_next_submit (PStr ''abc123'') (PStr ''/page1'') (PStr ''<html/>'')
                 (session_of [Yield untagged_submission, Yield untagged_submission])))))
           (PStr ''abc123'')) = Some []
   \<and> fst (prepare_next_submit (PStr ''abc123'') (PStr ''/page1'') (PStr ''<html/>'')
        (session_of [Raise (AssertionError (PStr ''wrong page'')), Yield page1_submission]))
       = Inl (AssertionError (PStr ''wrong page''))
   \<and> prepared_submits
        (snd (prepare_next_submit (PStr ''abc123'') (PStr ''/page1'') (PStr ''<html/>'')
           (session_of [Raise (AssertionError (PStr ''wrong page'')), Yield page1_submission])))
        (PStr ''abc123'') = None
   \<and> prepared_submits
        (snd (prepare_next_submit (PStr ''abc123'') (PStr ''/page1'') (PStr ''<html/>'')
           (snd (prepare_next_submit (PStr ''abc123'') (PStr ''/page1'') (PStr ''<html/>'')
              (session_of [Raise (AssertionError (PStr ''wrong page'')),
                           Yield page1_submission])))))
        (PStr ''abc123'') = Some []"
  by (simp add: prepare_next_submit_def dict_getitem_def pop_key_def session_of_def
        untagged_submission_def Let_def)

text \<open>
  C3. For a participant code that has no session in the worker (and is a value a
  dictionary can look up, as every string is), \<open>prepare_next_submit\<close> returns
  a value, the dictionary with \<^verbatim>\<open>'request_error'\<close> and the text that tells
  what happened to the session, and leaves the whole worker as it was: no
  generator is advanced and no cache entry is made.
\<close>

theorem prepare_next_submit_not_loaded:
  assumes "hashable participant_code" and "browser_bots w participant_code = None"
  shows "prepare_next_submit participant_code p h w =
    (Inr [(''request_error'', PStr (''Participant '' @ py_str participant_code @ '' not loaded in botworker. The botworker only stores the most recent 50 sessions, and discards older sessions. Or, maybe the botworker was restarted after the session was created.''))], w)"
  using assms by (simp add: prepare_next_submit_def dict_getitem_def not_loaded_text)

theorem prepare_next_submit_not_loaded_witness:
  "hashable (PStr ''zzz999'')
   \<and> browser_bots (session_of []) (PStr ''zzz999'') = None
   \<and> prepare_next_submit (PStr ''zzz999'') (PStr ''/page1'') (PStr ''<html/>'') (session_of []) =
       (Inr [(''request_error'', PStr ''Participant zzz999 not loaded in botworker. The botworker only stores the most recent 50 sessions, and discards older sessions. Or, maybe the botworker was restarted after the session was created.'')],
        session_of [])"
proof -
  have h: "hashable (PStr ''zzz999'')" by simp
  have n: "browser_bots (session_of []) (PStr ''zzz999'') = None"
    by (simp add: session_of_def)
  from prepare_next_submit_not_loaded [OF h n, of "PStr ''/page1''" "PStr ''<html/>''"]
  show ?thesis using n by simp
qed

text \<open>
  C4. \<open>consume_next_submit\<close> takes the participant's entry out of the cache,
  returns it and leaves every other entry; a second call right after it raises
  \<^verbatim>\<open>KeyError\<close> and changes nothing.
\<close>

theorem consume_next_submit_removes_entry:
  assumes "hashable c" and "prepared_submits w c = Some submission"
  shows "consume_next_submit c w =
           (Inr (pop_key_default ''page_class'' submission),
            w\<lparr>prepared_submits := (prepared_submits w)(c := None)\<rparr>)
       \<and> consume_next_submit c (snd (consume_next_submit c w)) =
           (Inl (KeyError c), snd (consume_next_submit c w))"
  using assms by (simp add: consume_next_submit_def dict_pop_def)

theorem consume_next_submit_removes_entry_witness:
  "hashable (PStr ''abc123'')
   \<and> prepared_submits (session_of []\<lparr>prepared_submits := [PStr ''abc123'' \<mapsto> untagged_submission]\<rparr>)
        (PStr ''abc123'') = Some untagged_submission
   \<and> fst (consume_next_submit (PStr ''abc123'')
        (session_of []\<lparr>prepared_submits := [PStr ''abc123'' \<mapsto> untagged_submission]\<rparr>)) =
       Inr untagged_submission
   \<and> fst (consume_next_submit (PStr ''abc123'')
        (snd (consume_next_submit (PStr ''abc123'')
           (session_of []\<lparr>prepared_submits := [PStr ''abc123'' \<mapsto> untagged_submission]\<rparr>)))) =
       Inl (KeyError (PStr ''abc123''))"
proof -
  let ?w = "session_of []\<lparr>prepared_submits := [PStr ''abc123'' \<mapsto> untagged_submission]\<rparr>"
  have h: "hashable (PStr ''abc123'')" by simp
  have e: "prepared_submits ?w (PStr ''abc123'') = Some untagged_submission" by simp
  note concl = consume_next_submit_removes_entry [OF h e]
  have c1: "fst (consume_next_submit (PStr ''abc123'') ?w) = Inr untagged_submission"
    using concl [THEN conjunct1] by (simp add: pop_key_default_def untagged_submission_def)
  have c2: "fst (consume_next_submit (PStr ''abc123'')
      (snd (consume_next_submit (PStr ''abc123'') ?w))) = Inl (KeyError (PStr ''abc123''))"
    using concl [THEN conjunct2] by (metis fst_conv)
  show ?thesis using h e c1 c2 by blast
qed

text \<open>
  C5. A submission that the generator yields with its page class is stored by
  \<open>prepare_next_submit\<close> and handed back by \<open>consume_next_submit\<close> without
  the \<^verbatim>\<open>'page_class'\<close> key; every other pair of the dictionary is there,
  unchanged and in its place.
\<close>

theorem page_class_round_trip:
  assumes "hashable c" and "browser_bots w c = Some b" and "prepared_submits w c = None"
    and "submits_generator b = Yield yielded # g" and "has_key ''page_class'' yielded"
  shows "prepared_submits (snd (prepare_next_submit c p h w)) c =
           Some (filter (\<lambda>kv. fst kv \<noteq> ''page_class'') yielded)
     \<and> fst (consume_next_submit c (snd (prepare_next_submit c p h w))) =
           Inr (filter (\<lambda>kv. fst kv \<noteq> ''page_class'') yielded)
     \<and> \<not> has_key ''page_class'' (filter (\<lambda>kv. fst kv \<noteq> ''page_class'') yielded)
     \<and> (\<forall>k. k \<noteq> ''page_class'' \<longrightarrow>
            map_of (filter (\<lambda>kv. fst kv \<noteq> ''page_class'') yielded) k = map_of yielded k)"
proof -
  have del: "AList.delete ''page_class'' yielded =
      filter (\<lambda>kv. fst kv \<noteq> ''page_class'') yielded"
    by (simp add: AList.delete_eq case_prod_unfold eq_commute)
  have idem: "AList.delete ''page_class'' (AList.delete ''page_class'' yielded) =
      AList.delete ''page_class'' yielded"
    by (simp add: delete_idem)
  note first = prepare_yield_tagged [OF assms, of p h]
  have stored: "prepared_submits (snd (prepare_next_submit c p h w)) c =
      Some (AList.delete ''page_class'' yielded)"
    by (simp add: first)
  have returned: "fst (consume_next_submit c (snd (prepare_next_submit c p h w))) =
      Inr (AList.delete ''page_class'' yielded)"
    using assms(1) stored
    by (simp add: consume_next_submit_def dict_pop_def pop_key_default_def idem)
  have absent: "\<not> has_key ''page_class'' (AList.delete ''page_class'' yielded)"
    by (simp add: has_key_def map_of_deleted)
  have kept: "\<forall>k. k \<noteq> ''page_class'' \<longrightarrow>
      map_of (AList.delete ''page_class'' yielded) k = map_of yielded k"
    by (simp add: map_of_deleted)
  show ?thesis
    using stored returned absent kept unfolding del by blast
qed

theorem page_class_round_trip_witness:
  "hashable (PStr ''abc123'')
   \<and> browser_bots (session_of [Yield page1_submission]) (PStr ''abc123'') =
       Some \<lparr>path = PNone, html = PNone, submits_generator = [Yield page1_submission]\<rparr>
   \<and> prepared_submits (session_of [Yield page1_submission]) (PStr ''abc123'') = None
   \<and> has_key ''page_class'' page1_submission
   \<and> fst (consume_next_submit (PStr ''abc123'')
        (snd (prepare_next_submit (PStr ''abc123'') (PStr ''/page1'') (PStr ''<html/>'')
           (session_of [Yield page1_submission])))) =
       Inr [(''post_data'', PDict [(''field'', PStr ''1'')])]"
proof -
  let ?w = "session_of [Yield page1_submission]"
  let ?b = "\<lparr>path = PNone, html = PNone, submits_generator = [Yield page1_submission]\<rparr>"
  have h: "hashable (PStr ''abc123'')" by simp
  have b: "browser_bots ?w (PStr ''abc123'') = Some ?b" by (simp add: session_of_def)
  have n: "prepared_submits ?w (PStr ''abc123'') = None" by (simp add: session_of_def)
  have g: "submits_generator ?b = Yield page1_submission # []" by simp
  have k: "has_key ''page_class'' page1_submission"
    by (simp add: has_key_def page1_submission_def)
  note concl = page_class_round_trip [OF h b n g k, of "PStr ''/page1''" "PStr ''<html/>''"]
  have f: "filter (\<lambda>kv. fst kv \<noteq> ''page_class'') page1_submission =
      [(''post_data'', PDict [(''field'', PStr ''1'')])]"
    by (simp add: page1_submission_def)
  show ?thesis
    using concl h b n k unfolding f by blast
qed

text \<open>
  C7, on the code. \<open>clear_all\<close> empties the session map and leaves the cache of
  prepared submissions as it was: the entry of \<^verbatim>\<open>abc123\<close> is still there
  after it, and a later \<open>consume_next_submit\<close> hands it out. When the
  participant is initialized again after the reset, \<open>prepare_next_submit\<close>
  finds the old entry, returns the empty acknowledgement and leaves the new
  generator where it was.
\<close>

theorem clear_all_keeps_prepared_submits:
  "browser_bots (clear_all prepared_abc123) = Map.empty
   \<and> prepared_submits (clear_all prepared_abc123) (PStr ''abc123'') = Some untagged_submission
   \<and> fst (consume_next_submit (PStr ''abc123'') (clear_all prepared_abc123)) =
       Inr untagged_submission
   \<and> fst (prepare_next_submit (PStr ''abc123'') (PStr ''/page1'') (PStr ''<html/>'')
        (snd (initialize_participant found_abc123 new_bot (PStr ''abc123'')
           (clear_all prepared_abc123)))) = Inr []
   \<and> map_option submits_generator
        (browser_bots
           (snd (prepare_next_submit (PStr ''abc123'') (PStr ''/page1'') (PStr ''<html/>'')
              (snd (initialize_participant found_abc123 new_bot (PStr ''abc123'')
                 (clear_all prepared_abc123))))) (PStr ''abc123'')) =
       Some [Yield page2_submission]"
  by (simp add: clear_all_def prepared_abc123_def consume_next_submit_def dict_pop_def
      pop_key_default_def untagged_submission_def initialize_participant_def found_abc123_def
      new_bot_def prune_def session_of_def prepare_next_submit_def dict_getitem_def Let_def)






text \<open>
  C6. For a participant whose generator is exhausted and who has no cache entry,
  \<open>prepare_next_submit\<close> returns and stores the empty dictionary,
  \<open>consume_next_submit\<close> returns it, and the caller's
  \<open>get_next_post_data\<close> raises \<^verbatim>\<open>StopIteration('No more submits')\<close>: in
  the same process, and over Redis with the worker taking the request from its
  listen key (the listen keys and the response key hold nothing else).
\<close>

theorem exhausted_generator:
  assumes "bot_participant_code self = ch # rest"
    and "browser_bots w (PStr (bot_participant_code self)) = Some b"
    and "prepared_submits w (PStr (bot_participant_code self)) = None"
    and "submits_generator b = []"
    and "REDIS_KEY_PREFIX @ ''-'' @ [ch] \<in> set (redis_listen_keys w)"
    and "\<forall>k \<in> set (redis_listen_keys w). r k = []"
    and "r (REDIS_KEY_PREFIX @ ''-consume_next_submit-'' @ bot_participant_code self) = []"
  shows "fst (prepare_next_submit (PStr (bot_participant_code self)) p h w) = Inr []
     \<and> prepared_submits (snd (prepare_next_submit (PStr (bot_participant_code self)) p h w))
          (PStr (bot_participant_code self)) = Some []
     \<and> fst (consume_next_submit (PStr (bot_participant_code self))
          (snd (prepare_next_submit (PStr (bot_participant_code self)) p h w))) = Inr []
     \<and> fst (get_next_post_data False others self
          (snd (prepare_next_submit (PStr (bot_participant_code self)) p h w), r0)) =
         Inl (StopIteration ''No more submits'')
     \<and> fst (get_next_post_data True
          (serving rt (snd (prepare_next_submit (PStr (bot_participant_code self)) p h w)))
          self (w0, r)) =
         Inl (StopIteration ''No more submits'')"
proof -
  let ?c = "PStr (bot_participant_code self)"
  let ?w1 = "snd (prepare_next_submit ?c p h w)"
  have h: "hashable ?c" by simp
  note first = prepare_exhausted [OF h assms(2,3,4), of p h]
  have stored: "prepared_submits ?w1 ?c = Some []" by (simp add: first)
  have keys: "redis_listen_keys ?w1 = redis_listen_keys w" by (simp add: first)
  have consumed: "fst (consume_next_submit ?c ?w1) = Inr []"
    using stored by (simp add: consume_next_submit_def dict_pop_def pop_key_default_def)
  have in_process: "fst (get_next_post_data False others self (?w1, r0)) =
      Inl (StopIteration ''No more submits'')"
    using stored by (simp add: get_next_post_data_def dict_pop_def post_data_of_def)
  have served: "fst (get_next_post_data_redis (serving rt ?w1) self r) = Inr (PDict [])"
    by (rule get_next_post_data_redis_served
        [OF assms(5) [folded keys] assms(6) [folded keys] assms(1) stored assms(7)])
  have over_redis: "fst (get_next_post_data True (serving rt ?w1) self (w0, r)) =
      Inl (StopIteration ''No more submits'')"
    using served
    by (auto simp add: get_next_post_data_def post_data_of_def split: prod.splits sum.splits)
  show ?thesis
    using stored consumed in_process over_redis by (simp add: first)
qed

theorem exhausted_generator_witness:
  "browser_bots (session_of []) (PStr ''abc123'') =
       Some \<lparr>path = PNone, html = PNone, submits_generator = []\<rparr>
   \<and> prepared_submits (session_of []) (PStr ''abc123'') = None
   \<and> ''otree-bots-a'' \<in> set (redis_listen_keys (session_of []))
   \<and> fst (prepare_next_submit (PStr ''abc123'') (PStr ''/page1'') (PStr ''<html/>'')
        (session_of [])) = Inr []
   \<and> fst (get_next_post_data False nobody browser_bot_abc123
        (snd (prepare_next_submit (PStr ''abc123'') (PStr ''/page1'') (PStr ''<html/>'')
           (session_of [])), empty_redis)) = Inl (StopIteration ''No more submits'')
   \<and> fst (get_next_post_data True
        (serving plain_runtime
           (snd (prepare_next_submit (PStr ''abc123'') (PStr ''/page1'') (PStr ''<html/>'')
              (session_of []))))
        browser_bot_abc123 (session_of [], empty_redis)) =
       Inl (StopIteration ''No more submits'')"
proof -
  let ?b = "\<lparr>path = PNone, html = PNone, submits_generator = []\<rparr>"
  have code: "bot_participant_code browser_bot_abc123 = CHR ''a'' # ''bc123''"
    by (simp add: browser_bot_abc123_def)
  have b: "browser_bots (session_of []) (PStr (bot_participant_code browser_bot_abc123)) = Some ?b"
    by (simp add: session_of_def browser_bot_abc123_def)
  have n: "prepared_submits (session_of []) (PStr (bot_participant_code browser_bot_abc123)) = None"
    by (simp add: session_of_def)
  have g: "submits_generator ?b = []" by simp
  have k: "REDIS_KEY_PREFIX @ ''-'' @ [CHR ''a''] \<in> set (redis_listen_keys (session_of []))"
    by (simp add: session_of_def REDIS_KEY_PREFIX_def)
  have e: "\<forall>k \<in> set (redis_listen_keys (session_of [])). empty_redis k = []"
    by (simp add: empty_redis_def)
  have e2: "empty_redis (REDIS_KEY_PREFIX @ ''-consume_next_submit-'' @
      bot_participant_code browser_bot_abc123) = []"
    by (simp add: empty_redis_def)
  note concl = exhausted_generator [OF code b n g k e e2,
      of "PStr ''/page1''" "PStr ''<html/>''" nobody empty_redis plain_runtime "session_of []"]
  have c: "bot_participant_code browser_bot_abc123 = ''abc123''"
    by (simp add: browser_bot_abc123_def)
  have k': "''otree-bots-a'' \<in> set (redis_listen_keys (session_of []))"
    by (simp add: session_of_def)
  show ?thesis
    using concl b n k' unfolding c by blast
qed

text \<open>
  C8, on the code. The pattern of \<open>redis_flush_bots\<close> is the prefix, then the
  class of the characters, then \<^verbatim>\<open>*\<close>: it has no \<^verbatim>\<open>-\<close> between the prefix
  and the class, where the key of \<open>make_redis_key\<close> has one. So a key of an
  input channel does not match it, whatever the participant's first character,
  and the flush leaves the channel \<^verbatim>\<open>otree-bots-a\<close> with its message; the
  pattern matches \<^verbatim>\<open>otree-botsa\<close>, which is no channel of the worker.
\<close>

theorem redis_flush_bots_misses_input_channels:
  "make_redis_key ''abc123'' = Inr ''otree-bots-a''
   \<and> \<not> stringmatch (flush_pattern ''abc'') ''otree-bots-a''
   \<and> redis_flush_bots ''abcdefghijklmnopqrstuvwxyz0123456789'' ''abc''
        (rpush ''otree-bots-a'' (Json (ping_request ''abc123'')) empty_redis) ''otree-bots-a'' =
       [Json (ping_request ''abc123'')]
   \<and> \<not> stringmatch (flush_pattern ''abcdefghijklmnopqrstuvwxyz0123456789'')
         (REDIS_KEY_PREFIX @ ''-'' @ [ch])
   \<and> stringmatch (flush_pattern ''abc'') ''otree-botsa''"
  by (simp add: make_redis_key_def stringmatch_def flush_pattern_def REDIS_KEY_PREFIX_def
      in_range_def redis_flush_bots_def rpush_def empty_redis_def)

text \<open>
  C9. With Redis in use, when the wait of \<open>prepare_next_submit\<close> or of
  \<open>get_next_post_data\<close> on its response key ends with nothing there, the
  caller pings the worker: it pushes the ping request after its own. If the
  wait on the ping's response key ends with nothing there either, the call
  raises the exception whose text says to run the botworker or to turn browser
  bots off, and the store holds the ping; if the ping is answered, it raises the
  other exception, that the botworker is running but did not return a
  submission. This holds whatever the other processes do.
\<close>

theorem timeout_is_diagnosed:
  assumes "bot_participant_code self = ch # rest"
    and "channel = REDIS_KEY_PREFIX @ ''-'' @ [ch]"
    and "ping_key = REDIS_KEY_PREFIX @ ''-ping-'' @ bot_participant_code self"
    and "prepared = store_after others channel (prepare_request self html') r"
    and "consumed = store_after others channel (consume_request self) r"
  shows "(prepared (REDIS_KEY_PREFIX @ ''-prepare_next_submit-'' @ bot_participant_code self) = []
          \<longrightarrow>
          (store_after others channel (ping_request (bot_participant_code self)) prepared
             ping_key = [] \<longrightarrow>
             fst (bot_prepare_next_submit True others self html' (w, r)) =
               Inl (Exception (PStr ''Ping to botworker failed. If you want to use browser bots, you need to be running the botworker.Otherwise, set (\"use_browser_bots\": False) in the session config in settings.py.''))
           \<and> snd (prepare_next_submit_redis others self html' r) =
               store_after others channel (ping_request (bot_participant_code self)) prepared)
        \<and> (store_after others channel (ping_request (bot_participant_code self)) prepared
             ping_key \<noteq> [] \<longrightarrow>
             fst (bot_prepare_next_submit True others self html' (w, r)) =
               Inl (Exception (PStr ''botworker is running but did not return a submission.''))))
     \<and> (consumed (REDIS_KEY_PREFIX @ ''-consume_next_submit-'' @ bot_participant_code self) = []
          \<longrightarrow>
          (store_after others channel (ping_request (bot_participant_code self)) consumed
             ping_key = [] \<longrightarrow>
             fst (get_next_post_data True others self (w, r)) =
               Inl (Exception (PStr ''Ping to botworker failed. If you want to use browser bots, you need to be running the botworker.Otherwise, set (\"use_browser_bots\": False) in the session config in settings.py.''))
           \<and> snd (get_next_post_data_redis others self r) =
               store_after others channel (ping_request (bot_participant_code self)) consumed)
        \<and> (store_after others channel (ping_request (bot_participant_code self)) consumed
             ping_key \<noteq> [] \<longrightarrow>
             fst (get_next_post_data True others self (w, r)) =
               Inl (Exception (PStr ''botworker is running but did not return a submission.''))))"
proof -
  note code = assms(1)
  have prepare_unreachable:
    "fst (bot_prepare_next_submit True others self html' (w, r)) = Inl (Exception (PStr ping_failed))
     \<and> snd (prepare_next_submit_redis others self html' r) =
         store_after others channel (ping_request (bot_participant_code self)) prepared"
    if "prepared (REDIS_KEY_PREFIX @ ''-prepare_next_submit-'' @ bot_participant_code self) = []"
      and "store_after others channel (ping_request (bot_participant_code self)) prepared
             ping_key = []"
  proof -
    have eq: "prepare_next_submit_redis others self html' r =
        (Inl (Exception (PStr ping_failed)),
         store_after others channel (ping_request (bot_participant_code self)) prepared)"
      unfolding redis_calls assms(2,4)
      by (rule round_trip_unreachable [OF code serializable_requests(1)
          that(1) [unfolded assms(4) assms(2)] that(2) [unfolded assms(2,3,4)]])
    then have "fst (prepare_next_submit_redis others self html' r) =
        Inl (Exception (PStr ping_failed))"
      by (simp only: fst_conv)
    from raised_by_prepare [OF this] eq show ?thesis
      by (simp only: snd_conv simp_thms)
  qed
  have prepare_unresponsive:
    "fst (bot_prepare_next_submit True others self html' (w, r)) =
       Inl (Exception (PStr no_submission))"
    if "prepared (REDIS_KEY_PREFIX @ ''-prepare_next_submit-'' @ bot_participant_code self) = []"
      and "store_after others channel (ping_request (bot_participant_code self)) prepared
             ping_key \<noteq> []"
  proof -
    have "fst (prepare_next_submit_redis others self html' r) =
        Inl (Exception (PStr no_submission))"
      unfolding redis_calls
      by (rule round_trip_unresponsive [OF code serializable_requests(1)
          that(1) [unfolded assms(4) assms(2)] that(2) [unfolded assms(2,3,4)]])
    then show ?thesis by (rule raised_by_prepare)
  qed
  have consume_unreachable:
    "fst (get_next_post_data True others self (w, r)) = Inl (Exception (PStr ping_failed))
     \<and> snd (get_next_post_data_redis others self r) =
         store_after others channel (ping_request (bot_participant_code self)) consumed"
    if "consumed (REDIS_KEY_PREFIX @ ''-consume_next_submit-'' @ bot_participant_code self) = []"
      and "store_after others channel (ping_request (bot_participant_code self)) consumed
             ping_key = []"
  proof -
    have eq: "get_next_post_data_redis others self r =
        (Inl (Exception (PStr ping_failed)),
         store_after others channel (ping_request (bot_participant_code self)) consumed)"
      unfolding redis_calls assms(2,5)
      by (rule round_trip_unreachable [OF code serializable_requests(2)
          that(1) [unfolded assms(5) assms(2)] that(2) [unfolded assms(2,3,5)]])
    then have "fst (get_next_post_data_redis others self r) =
        Inl (Exception (PStr ping_failed))"
      by (simp only: fst_conv)
    from raised_by_get_next_post_data [OF this] eq show ?thesis
      by (simp only: snd_conv simp_thms)
  qed
  have consume_unresponsive:
    "fst (get_next_post_data True others self (w, r)) = Inl (Exception (PStr no_submission))"
    if "consumed (REDIS_KEY_PREFIX @ ''-consume_next_submit-'' @ bot_participant_code self) = []"
      and "store_after others channel (ping_request (bot_participant_code self)) consumed
             ping_key \<noteq> []"
  proof -
    have "fst (get_next_post_data_redis others self r) =
        Inl (Exception (PStr no_submission))"
      unfolding redis_calls
      by (rule round_trip_unresponsive [OF code serializable_requests(2)
          that(1) [unfolded assms(5) assms(2)] that(2) [unfolded assms(2,3,5)]])
    then show ?thesis by (rule raised_by_get_next_post_data)
  qed
  show ?thesis
    using prepare_unreachable prepare_unresponsive consume_unreachable consume_unresponsive
    unfolding message_texts by blast
qed

theorem timeout_is_diagnosed_witness:
  "store_after nobody ''otree-bots-a'' (prepare_request browser_bot_abc123 ''<html/>'')
       empty_redis ''otree-bots-prepare_next_submit-abc123'' = []
   \<and> store_after nobody ''otree-bots-a'' (ping_request ''abc123'')
        (store_after nobody ''otree-bots-a'' (prepare_request browser_bot_abc123 ''<html/>'')
           empty_redis) ''otree-bots-ping-abc123'' = []
   \<and> fst (bot_prepare_next_submit True nobody browser_bot_abc123 ''<html/>''
        (session_of [], empty_redis)) =
       Inl (Exception (PStr ''Ping to botworker failed. If you want to use browser bots, you need to be running the botworker.Otherwise, set (\"use_browser_bots\": False) in the session config in settings.py.''))
   \<and> snd (prepare_next_submit_redis nobody browser_bot_abc123 ''<html/>'' empty_redis)
        ''otree-bots-a'' =
       [Json (prepare_request browser_bot_abc123 ''<html/>''), Json (ping_request ''abc123'')]
   \<and> store_after nobody ''otree-bots-a'' (consume_request browser_bot_abc123)
        empty_redis ''otree-bots-consume_next_submit-abc123'' = []
   \<and> fst (get_next_post_data True nobody browser_bot_abc123 (session_of [], empty_redis)) =
       Inl (Exception (PStr ''Ping to botworker failed. If you want to use browser bots, you need to be running the botworker.Otherwise, set (\"use_browser_bots\": False) in the session config in settings.py.''))
   \<and> store_after (late_worker plain_runtime (session_of [])) ''otree-bots-a''
        (prepare_request browser_bot_abc123 ''<html/>'') empty_redis
        ''otree-bots-prepare_next_submit-abc123'' = []
   \<and> store_after (late_worker plain_runtime (session_of [])) ''otree-bots-a''
        (ping_request ''abc123'')
        (store_after (late_worker plain_runtime (session_of [])) ''otree-bots-a''
           (prepare_request browser_bot_abc123 ''<html/>'') empty_redis)
        ''otree-bots-ping-abc123'' = [Json (PDict [(''ok'', PBool True)])]
   \<and> fst (bot_prepare_next_submit True (late_worker plain_runtime (session_of []))
        browser_bot_abc123 ''<html/>'' (session_of [], empty_redis)) =
       Inl (Exception (PStr ''botworker is running but did not return a submission.''))"
proof -
  let ?late = "late_worker plain_runtime (session_of [])"
  have code: "bot_participant_code browser_bot_abc123 = CHR ''a'' # ''bc123''"
    by (simp add: browser_bot_abc123_def)
  have name: "bot_participant_code browser_bot_abc123 = ''abc123''"
    by (simp add: browser_bot_abc123_def)
  have keys: "REDIS_KEY_PREFIX @ ''-'' @ [CHR ''a''] = ''otree-bots-a''"
      "REDIS_KEY_PREFIX @ ''-ping-'' @ ''abc123'' = ''otree-bots-ping-abc123''"
      "REDIS_KEY_PREFIX @ ''-prepare_next_submit-'' @ ''abc123'' =
        ''otree-bots-prepare_next_submit-abc123''"
      "REDIS_KEY_PREFIX @ ''-consume_next_submit-'' @ ''abc123'' =
        ''otree-bots-consume_next_submit-abc123''"
    by (simp_all add: REDIS_KEY_PREFIX_def)
  have n1: "store_after nobody ''otree-bots-a'' (prepare_request browser_bot_abc123 ''<html/>'')
       empty_redis ''otree-bots-prepare_next_submit-abc123'' = []"
    by (simp add: store_after_def nobody_def rpush_def empty_redis_def)
  have n2: "store_after nobody ''otree-bots-a'' (ping_request ''abc123'')
        (store_after nobody ''otree-bots-a'' (prepare_request browser_bot_abc123 ''<html/>'')
           empty_redis) ''otree-bots-ping-abc123'' = []"
    by (simp add: store_after_def nobody_def rpush_def empty_redis_def)
  have n3: "store_after nobody ''otree-bots-a'' (consume_request browser_bot_abc123)
        empty_redis ''otree-bots-consume_next_submit-abc123'' = []"
    by (simp add: store_after_def nobody_def rpush_def empty_redis_def)
  have n4: "store_after nobody ''otree-bots-a'' (ping_request ''abc123'')
        (store_after nobody ''otree-bots-a'' (consume_request browser_bot_abc123)
           empty_redis) ''otree-bots-ping-abc123'' = []"
    by (simp add: store_after_def nobody_def rpush_def empty_redis_def)
  have l0: "store_after ?late ''otree-bots-a''
      (prepare_request browser_bot_abc123 ''<html/>'') empty_redis =
      rpush ''otree-bots-a'' (Json (prepare_request browser_bot_abc123 ''<html/>'')) empty_redis"
    by (simp add: store_after_def late_worker_def session_of_def rpush_def empty_redis_def
        fun_eq_iff)
  have l1: "store_after ?late ''otree-bots-a''
        (prepare_request browser_bot_abc123 ''<html/>'') empty_redis
        ''otree-bots-prepare_next_submit-abc123'' = []"
    by (simp add: l0) (simp add: rpush_def empty_redis_def)
  have l2: "store_after ?late ''otree-bots-a'' (ping_request ''abc123'')
        (store_after ?late ''otree-bots-a''
           (prepare_request browser_bot_abc123 ''<html/>'') empty_redis)
        ''otree-bots-ping-abc123'' = [Json (PDict [(''ok'', PBool True)])]"
    unfolding l0
    by (simp add: store_after_def late_worker_def session_of_def rpush_def empty_redis_def
      blpop_def handle_message_def prepare_request_def ping_request_def browser_bot_abc123_def
      REDIS_KEY_PREFIX_def subscript_def run_command_prepare run_command_ping returning_def
      prepare_next_submit_def dict_getitem_def Let_def json_dumps_def numeral_2_eq_2)
  then have l2': "store_after ?late ''otree-bots-a'' (ping_request ''abc123'')
        (store_after ?late ''otree-bots-a''
           (prepare_request browser_bot_abc123 ''<html/>'') empty_redis)
        ''otree-bots-ping-abc123'' \<noteq> []"
    by simp
  note down = timeout_is_diagnosed [OF code refl refl refl refl,
      of nobody "''<html/>''" empty_redis "session_of []", unfolded name keys]
  note late = timeout_is_diagnosed [OF code refl refl refl refl,
      of ?late "''<html/>''" empty_redis "session_of []", unfolded name keys]
  have a: "fst (bot_prepare_next_submit True nobody browser_bot_abc123 ''<html/>''
        (session_of [], empty_redis)) =
       Inl (Exception (PStr ''Ping to botworker failed. If you want to use browser bots, you need to be running the botworker.Otherwise, set (\"use_browser_bots\": False) in the session config in settings.py.''))"
    and b: "snd (prepare_next_submit_redis nobody browser_bot_abc123 ''<html/>'' empty_redis) =
       store_after nobody ''otree-bots-a'' (ping_request ''abc123'')
        (store_after nobody ''otree-bots-a'' (prepare_request browser_bot_abc123 ''<html/>'')
           empty_redis)"
    and c: "fst (get_next_post_data True nobody browser_bot_abc123 (session_of [], empty_redis)) =
       Inl (Exception (PStr ''Ping to botworker failed. If you want to use browser bots, you need to be running the botworker.Otherwise, set (\"use_browser_bots\": False) in the session config in settings.py.''))"
    using down n1 n2 n3 n4 by blast+
  have b': "snd (prepare_next_submit_redis nobody browser_bot_abc123 ''<html/>'' empty_redis)
        ''otree-bots-a'' =
       [Json (prepare_request browser_bot_abc123 ''<html/>''), Json (ping_request ''abc123'')]"
    unfolding b by (simp add: store_after_def nobody_def rpush_def empty_redis_def)
  have d: "fst (bot_prepare_next_submit True ?late
        browser_bot_abc123 ''<html/>'' (session_of [], empty_redis)) =
       Inl (Exception (PStr ''botworker is running but did not return a submission.''))"
    using late l1 l2' by blast
  show ?thesis
    using n1 n2 a b' n3 c l1 l2 d by blast
qed

end
